theory Spec2Isabelle
  imports Main "HOL-Library.Sublist"
begin

section \<open>ClawCloud automatic login: a shallow embedding of scripts/auto_login.py\<close>

text \<open>
  The script drives a browser through a GitHub OAuth login, stores the session cookies and
  reports through Telegram. The browser, the clock, the file system and the network are
  outside the script, so the model takes them as an environment: a record of oracles that
  answer each call from the list of external calls made so far. The script's own state (its
  log, its list of screenshots, the screenshot counter) and that list of calls are threaded
  through every function; an exception or \<open>sys.exit\<close> is the \<open>Inl\<close> result.

  Conventions. Strings are byte lists, and the file is ASCII: the Chinese texts of the
  source's log lines, screenshot labels and notification texts are given in English, the
  emoji icons as bracketed tags. Output to stdout (\<open>print\<close>) is left out. \<open>page.url\<close> is
  an attribute read, not a browser call: it is a function of the calls made so far.
\<close>

subsection \<open>Strings\<close>

text \<open>Python's \<open>sub in s\<close> on strings.\<close>

fun is_in :: "string \<Rightarrow> string \<Rightarrow> bool" where
  "is_in sub [] = (sub = [])"
| "is_in sub (c # cs) = (prefix sub (c # cs) \<or> is_in sub cs)"

text \<open>\<open>str.lower()\<close>, on ASCII letters.\<close>

definition lower_char :: "char \<Rightarrow> char" where
  "lower_char c =
     (case map_of (zip ''ABCDEFGHIJKLMNOPQRSTUVWXYZ'' ''abcdefghijklmnopqrstuvwxyz'') c of
        None \<Rightarrow> c | Some d \<Rightarrow> d)"

definition lower :: "string \<Rightarrow> string" where
  "lower s = map lower_char s"

text \<open>\<open>sep.join(xs)\<close>.\<close>

fun join :: "string \<Rightarrow> string list \<Rightarrow> string" where
  "join sep [] = []"
| "join sep [x] = x"
| "join sep (x # y # ys) = x @ sep @ join sep (y # ys)"

text \<open>\<open>str(n)\<close> and the format \<open>{n:02d}\<close> for a natural number.\<close>

fun str_nat :: "nat \<Rightarrow> string" where
  "str_nat n =
     (if n < 10 then [''0123456789'' ! n]
      else str_nat (n div 10) @ [''0123456789'' ! (n mod 10)])"

declare str_nat.simps [simp del]

definition fmt_02d :: "nat \<Rightarrow> string" where
  "fmt_02d n = (if n < 10 then CHR ''0'' # str_nat n else str_nat n)"

text \<open>\<open>d.get(k, default)\<close> on a dictionary kept as an association list.\<close>

definition dict_get :: "(string \<times> 'v) list \<Rightarrow> string \<Rightarrow> 'v \<Rightarrow> 'v" where
  "dict_get d k dflt = (case map_of d k of None \<Rightarrow> dflt | Some v \<Rightarrow> v)"

text \<open>How an f-string prints an optional string (\<open>None\<close> when the variable is unset).\<close>

definition str_opt :: "string option \<Rightarrow> string" where
  "str_opt x = (case x of None \<Rightarrow> ''None'' | Some v \<Rightarrow> v)"

text \<open>Python's truth value of an optional string: \<open>None\<close> and \<open>""\<close> are false.\<close>

definition truthy :: "string option \<Rightarrow> bool" where
  "truthy x = (case x of None \<Rightarrow> False | Some v \<Rightarrow> v \<noteq> [])"

subsection \<open>Configuration (lines 15-16)\<close>

definition CLAW_CLOUD_URL :: string where
  "CLAW_CLOUD_URL = ''https://eu-central-1.run.claw.cloud''"

definition SIGNIN_URL :: string where
  "SIGNIN_URL = CLAW_CLOUD_URL @ ''/signin''"

subsection \<open>External calls and the environment\<close>

text \<open>A cookie is the dictionary Playwright returns, attribute name to value.\<close>

type_synonym cookie = "(string \<times> string) list"

datatype call =
    Launch | NewContext | NewPage | BrowserClose
  | Goto string | WaitLoad | Sleep nat
  | Title | Content | Cookies
  | IsVisible string | Click string | Fill string string | InnerText string
  | Screenshot string
  | WriteJson string "cookie list"
  | SendMessage string | SendPhoto string string

text \<open>
  Every oracle sees the calls made before the one it answers. For a call that returns a
  value, \<open>Inl m\<close> is "raises \<open>Exception(m)\<close>"; for a call that returns nothing,
  \<open>fails\<close> gives \<open>Some m\<close> when it raises.
\<close>

record env =
  env_username :: "string option"
  env_password :: "string option"
  env_bot_token :: "string option"
  env_chat_id :: "string option"
  now :: "call list \<Rightarrow> string"
  page_url :: "call list \<Rightarrow> string"
  page_title :: "call list \<Rightarrow> string + string"
  page_content :: "call list \<Rightarrow> string + string"
  visible :: "call list \<Rightarrow> string \<Rightarrow> string + bool"
  element_text :: "call list \<Rightarrow> string \<Rightarrow> string + string"
  context_cookies :: "call list \<Rightarrow> string + cookie list"
  fails :: "call list \<Rightarrow> call \<Rightarrow> string option"
  post :: "call list \<Rightarrow> call \<Rightarrow> string + nat"
  path_exists :: "call list \<Rightarrow> string \<Rightarrow> bool"

subsection \<open>The script's state and its control flow\<close>

record state =
  logs :: "string list"
  screenshots :: "string list"
  screenshot_count :: nat
  trace :: "call list"

definition init_state :: state where
  "init_state = \<lparr>logs = [], screenshots = [], screenshot_count = 0, trace = []\<rparr>"

datatype error = Exception string | SystemExit nat

type_synonym 'a prog = "state \<Rightarrow> (error + 'a) \<times> state"

definition ret :: "'a \<Rightarrow> 'a prog" where
  "ret x s = (Inr x, s)"

definition raise :: "error \<Rightarrow> 'a prog" where
  "raise e s = (Inl e, s)"

definition bindE :: "'a prog \<Rightarrow> ('a \<Rightarrow> 'b prog) \<Rightarrow> 'b prog" where
  "bindE m f s = (case m s of (Inl e, s') \<Rightarrow> (Inl e, s') | (Inr x, s') \<Rightarrow> f x s')"

text \<open>\<open>try: m except Exception as e: h e\<close>: \<open>SystemExit\<close> is not an \<open>Exception\<close>.\<close>

definition try_except :: "'a prog \<Rightarrow> (string \<Rightarrow> 'a prog) \<Rightarrow> 'a prog" where
  "try_except m h s =
     (case m s of (Inl (Exception e), s') \<Rightarrow> h e s' | (r, s') \<Rightarrow> (r, s'))"

text \<open>\<open>try: m except: h\<close>: a bare \<open>except\<close> catches everything.\<close>

definition try_bare :: "'a prog \<Rightarrow> 'a prog \<Rightarrow> 'a prog" where
  "try_bare m h s = (case m s of (Inl e, s') \<Rightarrow> h s' | (Inr x, s') \<Rightarrow> (Inr x, s'))"

text \<open>\<open>try: m finally: c\<close>: an exception of \<open>c\<close> replaces the pending outcome.\<close>

definition try_finally :: "'a prog \<Rightarrow> unit prog \<Rightarrow> 'a prog" where
  "try_finally m c s =
     (case m s of (r, s') \<Rightarrow>
        (case c s' of (Inl e, s'') \<Rightarrow> (Inl e, s'') | (Inr u, s'') \<Rightarrow> (r, s'')))"

definition sys_exit :: "nat \<Rightarrow> 'a prog" where
  "sys_exit n = raise (SystemExit n)"

text \<open>The exit status of the process: an uncaught exception ends Python with status 1.\<close>

fun exit_code :: "error + unit \<Rightarrow> nat" where
  "exit_code (Inr u) = 0"
| "exit_code (Inl (SystemExit n)) = n"
| "exit_code (Inl (Exception m)) = 1"

text \<open>A call that returns nothing, and a call that returns a value.\<close>

definition act :: "env \<Rightarrow> call \<Rightarrow> unit prog" where
  "act env c s =
     ((case fails env (trace s) c of None \<Rightarrow> Inr () | Some m \<Rightarrow> Inl (Exception m)),
      s\<lparr>trace := trace s @ [c]\<rparr>)"

definition ask :: "(call list \<Rightarrow> string + 'a) \<Rightarrow> call \<Rightarrow> 'a prog" where
  "ask oracle c s =
     ((case oracle (trace s) of Inl m \<Rightarrow> Inl (Exception m) | Inr v \<Rightarrow> Inr v),
      s\<lparr>trace := trace s @ [c]\<rparr>)"

definition get_url :: "env \<Rightarrow> string prog" where
  "get_url env s = (Inr (page_url env (trace s)), s)"

definition sleep :: "nat \<Rightarrow> unit prog" where
  "sleep n s = (Inr (), s\<lparr>trace := trace s @ [Sleep n]\<rparr>)"

definition nl :: string where
  "nl = [CHR 0x0A]"

subsection \<open>TelegramNotifier (lines 19-62)\<close>

definition tg_enabled :: "env \<Rightarrow> bool" where
  "tg_enabled env = (truthy (env_bot_token env) \<and> truthy (env_chat_id env))"

text \<open>Both senders catch every \<open>Exception\<close> of the request and return \<open>False\<close> then.\<close>

definition send_message :: "env \<Rightarrow> string \<Rightarrow> bool prog" where
  "send_message env message s =
     (if \<not> tg_enabled env then (Inr False, s)
      else (Inr (case post env (trace s) (SendMessage message) of
                   Inl e \<Rightarrow> False | Inr code \<Rightarrow> code = 200),
            s\<lparr>trace := trace s @ [SendMessage message]\<rparr>))"

definition send_photo :: "env \<Rightarrow> string \<Rightarrow> string \<Rightarrow> bool prog" where
  "send_photo env photo_path caption s =
     (if \<not> tg_enabled env \<or> \<not> path_exists env (trace s) photo_path then (Inr False, s)
      else (Inr (case post env (trace s) (SendPhoto photo_path (take 1024 caption)) of
                   Inl e \<Rightarrow> False | Inr code \<Rightarrow> code = 200),
            s\<lparr>trace := trace s @ [SendPhoto photo_path (take 1024 caption)]\<rparr>))"

subsection \<open>AutoLogin: log, screenshot, validate_credentials (lines 76-108)\<close>

definition icons :: "(string \<times> string) list" where
  "icons = [(''INFO'', ''[i]''), (''SUCCESS'', ''[ok]''), (''ERROR'', ''[x]''),
            (''WARN'', ''[!]''), (''STEP'', ''[>]'')]"

definition log_line :: "string \<Rightarrow> string \<Rightarrow> string" where
  "log_line message level = dict_get icons level ''*'' @ '' '' @ message"

definition log :: "string \<Rightarrow> string \<Rightarrow> unit prog" where
  "log message level s = (Inr (), s\<lparr>logs := logs s @ [log_line message level]\<rparr>)"

definition screenshot :: "env \<Rightarrow> string \<Rightarrow> string prog" where
  "screenshot env name s =
     (let s1 = s\<lparr>screenshot_count := screenshot_count s + 1\<rparr>;
          filename = fmt_02d (screenshot_count s1) @ ''_'' @ name @ ''.png''
      in bindE (act env (Screenshot filename)) (\<lambda>_.
         bindE (\<lambda>s2. (Inr (), s2\<lparr>screenshots := screenshots s2 @ [filename]\<rparr>)) (\<lambda>_.
         bindE (log (''screenshot: '' @ filename) ''INFO'') (\<lambda>_.
         ret filename))) s1)"

definition validate_credentials :: "env \<Rightarrow> bool prog" where
  "validate_credentials env =
     (if \<not> truthy (env_username env) then
        bindE (log ''error: GH_USERNAME is not set'' ''ERROR'') (\<lambda>_. ret False)
      else if \<not> truthy (env_password env) then
        bindE (log ''error: GH_PASSWORD is not set'' ''ERROR'') (\<lambda>_. ret False)
      else
        bindE (log (''username: '' @ str_opt (env_username env)) ''INFO'') (\<lambda>_.
        bindE (log (''password: '' @
                 replicate (length (str_opt (env_password env))) (CHR ''*'')) ''INFO'') (\<lambda>_.
        ret True)))"

subsection \<open>find_and_click (lines 110-121)\<close>

text \<open>
  The body of the \<open>try\<close> returns \<open>True\<close> when the function returned \<open>True\<close> in it; an
  exception of \<open>is_visible\<close> or of \<open>click\<close> goes on with the next selector.
\<close>

fun find_and_click :: "env \<Rightarrow> string list \<Rightarrow> string \<Rightarrow> bool prog" where
  "find_and_click env [] description = ret False"
| "find_and_click env (selector # selectors) description =
     bindE (try_bare
              (bindE (ask (\<lambda>h. visible env h selector) (IsVisible selector)) (\<lambda>v.
                 if v then
                   bindE (act env (Click selector)) (\<lambda>_.
                   bindE (log (''clicked: '' @ description) ''SUCCESS'') (\<lambda>_.
                   ret True))
                 else ret False))
              (ret False))
       (\<lambda>clicked. if clicked then ret True else find_and_click env selectors description)"

subsection \<open>Page classifiers (lines 123-150)\<close>

definition flash_error_selector :: string where
  "flash_error_selector = ''.flash-error, .flash.flash-error''"

definition check_github_error :: "env \<Rightarrow> string option prog" where
  "check_github_error env =
     try_bare
       (bindE (ask (\<lambda>h. visible env h flash_error_selector) (IsVisible flash_error_selector)) (\<lambda>v.
          if v then
            bindE (ask (\<lambda>h. element_text env h flash_error_selector)
                     (InnerText flash_error_selector)) (\<lambda>t. ret (Some t))
          else ret None))
       (ret None)"

definition verification_keywords :: "string list" where
  "verification_keywords =
     [''verify your device'', ''device verification'', ''check your email'', ''verification code'']"

definition check_device_verification :: "env \<Rightarrow> bool prog" where
  "check_device_verification env =
     bindE (get_url env) (\<lambda>u.
       let url = lower u in
       if is_in ''verified-device'' url \<or> is_in ''device-verification'' url then ret True
       else
         bindE (ask (page_content env) Content) (\<lambda>c.
           let content = lower c in
           ret (list_ex (\<lambda>kw. is_in kw content) verification_keywords)))"

definition otp_selector :: string where
  \<open>otp_selector = ''input[name="otp"], input[name="app_otp"]''\<close>

definition check_2fa :: "env \<Rightarrow> bool prog" where
  "check_2fa env =
     bindE (get_url env) (\<lambda>u.
       if is_in ''two-factor'' u then ret True
       else try_bare (ask (\<lambda>h. visible env h otp_selector) (IsVisible otp_selector)) (ret False))"

subsection \<open>login_github (lines 152-223)\<close>

definition fill :: "env \<Rightarrow> string \<Rightarrow> string option \<Rightarrow> unit prog" where
  "fill env selector v =
     (case v of None \<Rightarrow> raise (Exception ''fill: value is None'')
      | Some x \<Rightarrow> act env (Fill selector x))"

definition submit_selector :: string where
  \<open>submit_selector = ''input[type="submit"], button[type="submit"]''\<close>

text \<open>
  Lines 154-189: fill in the form and submit it. \<open>None\<close> is the early \<open>return False\<close>
  of one of the three \<open>except\<close> handlers, \<open>Some current_url\<close> the URL read at line 188.
\<close>

definition login_submit :: "env \<Rightarrow> string option prog" where
  \<open>login_submit env =
     bindE (log ''logging in to GitHub...'' ''STEP'') (\<lambda>_.
     bindE (screenshot env ''github_login_page'') (\<lambda>_.
     bindE (try_except
              (bindE (fill env ''input[name="login"]'' (env_username env)) (\<lambda>_.
               bindE (log ''username entered'' ''INFO'') (\<lambda>_. ret True)))
              (\<lambda>e. bindE (log (''entering the username failed: '' @ e) ''ERROR'') (\<lambda>_.
                   ret False))) (\<lambda>ok1.
     if \<not> ok1 then ret None else
     bindE (try_except
              (bindE (fill env ''input[name="password"]'' (env_password env)) (\<lambda>_.
               bindE (log ''password entered'' ''INFO'') (\<lambda>_. ret True)))
              (\<lambda>e. bindE (log (''entering the password failed: '' @ e) ''ERROR'') (\<lambda>_.
                   ret False))) (\<lambda>ok2.
     if \<not> ok2 then ret None else
     bindE (screenshot env ''github_filled'') (\<lambda>_.
     bindE (try_except
              (bindE (act env (Click submit_selector)) (\<lambda>_.
               bindE (log ''login button clicked'' ''INFO'') (\<lambda>_. ret True)))
              (\<lambda>e. bindE (log (''clicking login failed: '' @ e) ''ERROR'') (\<lambda>_.
                   ret False))) (\<lambda>ok3.
     if \<not> ok3 then ret None else
     bindE (sleep 3) (\<lambda>_.
     bindE (act env WaitLoad) (\<lambda>_.
     bindE (screenshot env ''github_after_login'') (\<lambda>_.
     bindE (get_url env) (\<lambda>current_url.
     bindE (log (''current page: '' @ current_url) ''INFO'') (\<lambda>_.
     ret (Some current_url))))))))))))\<close>

text \<open>Lines 191-223: classify the page that answered the submission.\<close>

definition login_classify :: "env \<Rightarrow> string \<Rightarrow> bool prog" where
  "login_classify env current_url =
     bindE (check_github_error env) (\<lambda>error.
     if truthy error then
       bindE (log (''GitHub error: '' @ str_opt error) ''ERROR'') (\<lambda>_. ret False)
     else
     bindE (check_device_verification env) (\<lambda>dv.
     if dv then
       bindE (log ''device verification required'' ''ERROR'') (\<lambda>_.
       bindE (log ''GitHub saw a new device and sent a verification mail'' ''WARN'') (\<lambda>_.
       bindE (log ''log in by hand once to complete the verification'' ''WARN'') (\<lambda>_.
       bindE (screenshot env ''device_verification'') (\<lambda>_.
       ret False))))
     else
     bindE (check_2fa env) (\<lambda>tf.
     if tf then
       bindE (log ''two-factor authentication required'' ''ERROR'') (\<lambda>_.
       bindE (log ''this script cannot handle 2FA'' ''WARN'') (\<lambda>_.
       bindE (screenshot env ''two_factor'') (\<lambda>_.
       ret False)))
     else if is_in ''github.com/login'' current_url \<or> is_in ''github.com/session'' current_url then
       bindE (ask (page_content env) Content) (\<lambda>content.
       if is_in ''Incorrect username or password'' content then
         bindE (log ''wrong username or password'' ''ERROR'') (\<lambda>_. ret False)
       else if is_in ''too many'' (lower content) then
         bindE (log ''too many login attempts, rate limited'' ''ERROR'') (\<lambda>_. ret False)
       else
         bindE (log ''still on the login page, waiting on...'' ''WARN'') (\<lambda>_. ret True))
     else ret True)))"

definition login_github :: "env \<Rightarrow> bool prog" where
  "login_github env =
     bindE (login_submit env) (\<lambda>r.
       case r of None \<Rightarrow> ret False | Some current_url \<Rightarrow> login_classify env current_url)"

subsection \<open>handle_oauth and wait_redirect (lines 225-267)\<close>

definition oauth_selectors :: "string list" where
  \<open>oauth_selectors =
     [''button[name="authorize"]'', ''button:has-text("Authorize")'', ''#js-oauth-authorize-btn'']\<close>

definition handle_oauth :: "env \<Rightarrow> bool prog" where
  "handle_oauth env =
     bindE (get_url env) (\<lambda>u.
       if is_in ''github.com/login/oauth/authorize'' u then
         bindE (log ''handling the OAuth authorization...'' ''STEP'') (\<lambda>_.
         bindE (screenshot env ''oauth_authorize_page'') (\<lambda>_.
         bindE (find_and_click env oauth_selectors ''authorize button'') (\<lambda>_.
         bindE (sleep 3) (\<lambda>_.
         bindE (act env WaitLoad) (\<lambda>_.
         ret True)))))
       else ret True)"

text \<open>
  The \<open>for i in range(max_wait)\<close> loop: \<open>wait_loop env i n\<close> runs the iterations
  \<open>i, i + 1, ..., i + n - 1\<close>. \<open>Some b\<close> is a \<open>return b\<close> inside the loop, \<open>None\<close>
  the end of the range.
\<close>

fun wait_loop :: "env \<Rightarrow> nat \<Rightarrow> nat \<Rightarrow> bool option prog" where
  "wait_loop env i 0 = ret None"
| "wait_loop env i (Suc n) =
     bindE (get_url env) (\<lambda>current_url.
       if is_in ''claw.cloud'' current_url \<and> \<not> is_in ''signin'' (lower current_url) then
         bindE (log ''redirected to ClawCloud'' ''SUCCESS'') (\<lambda>_. ret (Some True))
       else if i > 15 \<and> (is_in ''github.com/login'' current_url
                          \<or> is_in ''github.com/session'' current_url) then
         bindE (log ''stuck on the GitHub page'' ''ERROR'') (\<lambda>_. ret (Some False))
       else
         bindE (if is_in ''github.com/login/oauth/authorize'' current_url
                then bindE (handle_oauth env) (\<lambda>_. ret ()) else ret ()) (\<lambda>_.
         bindE (sleep 1) (\<lambda>_.
         bindE (if i mod 10 = 0
                then log (''  waiting... ('' @ str_nat i @ ''s)'') ''INFO'' else ret ()) (\<lambda>_.
         wait_loop env (Suc i) n))))"

definition wait_redirect :: "env \<Rightarrow> nat \<Rightarrow> bool prog" where
  "wait_redirect env max_wait =
     bindE (log (''waiting for the redirect (at most '' @ str_nat max_wait @ '' s)...'') ''STEP'') (\<lambda>_.
     bindE (wait_loop env 0 max_wait) (\<lambda>r.
       case r of Some b \<Rightarrow> ret b
       | None \<Rightarrow> bindE (log ''redirect timed out'' ''ERROR'') (\<lambda>_. ret False)))"

subsection \<open>verify_login and keepalive (lines 269-322)\<close>

definition verify_login :: "env \<Rightarrow> bool prog" where
  "verify_login env =
     bindE (get_url env) (\<lambda>current_url.
     bindE (log (''final page: '' @ current_url) ''INFO'') (\<lambda>_.
     bindE (ask (page_title env) Title) (\<lambda>t.
     bindE (log (''page title: '' @ t) ''INFO'') (\<lambda>_.
     if \<not> is_in ''claw.cloud'' current_url then
       bindE (log ''not on ClawCloud'' ''ERROR'') (\<lambda>_. ret False)
     else if is_in ''signin'' (lower current_url) then
       bindE (log ''still on the sign-in page'' ''ERROR'') (\<lambda>_. ret False)
     else
       bindE (ask (context_cookies env) Cookies) (\<lambda>cookies.
       let claw_cookies = filter (\<lambda>c. is_in ''claw'' (dict_get c ''domain'' [])) cookies in
       if claw_cookies = [] then
         bindE (log ''got no cookies'' ''ERROR'') (\<lambda>_. ret False)
       else
         bindE (log (''got '' @ str_nat (length claw_cookies) @ '' cookies'') ''SUCCESS'') (\<lambda>_.
         bindE (act env (WriteJson ''cookies.json'' claw_cookies)) (\<lambda>_.
         ret True)))))))"

definition keepalive_targets :: "(string \<times> string) list" where
  "keepalive_targets = [(CLAW_CLOUD_URL @ ''/'', ''console''), (CLAW_CLOUD_URL @ ''/apps'', ''apps'')]"

text \<open>
  The loop over the pages: \<open>False\<close> is the \<open>return False\<close> inside the loop, \<open>True\<close> its
  normal end. An \<open>Exception\<close> of a navigation is logged and the loop goes on.
\<close>

fun keepalive_loop :: "env \<Rightarrow> (string \<times> string) list \<Rightarrow> bool prog" where
  "keepalive_loop env [] = ret True"
| "keepalive_loop env ((url, name) # rest) =
     bindE (try_except
              (bindE (act env (Goto url)) (\<lambda>_.
               bindE (act env WaitLoad) (\<lambda>_.
               bindE (get_url env) (\<lambda>u.
                 if is_in ''signin'' (lower u) then
                   bindE (log (''visiting '' @ name @ '' was redirected to the sign-in page'')
                            ''ERROR'') (\<lambda>_. ret False)
                 else
                   bindE (log (''visited: '' @ name) ''SUCCESS'') (\<lambda>_.
                   bindE (sleep 2) (\<lambda>_. ret True))))))
              (\<lambda>e. bindE (log (''visiting '' @ name @ '' failed: '' @ e) ''WARN'') (\<lambda>_.
                   ret True)))
       (\<lambda>go_on. if go_on then keepalive_loop env rest else ret False)"

definition keepalive :: "env \<Rightarrow> bool prog" where
  "keepalive env =
     bindE (log ''visiting pages to keep the session alive...'' ''STEP'') (\<lambda>_.
     bindE (keepalive_loop env keepalive_targets) (\<lambda>finished.
       if \<not> finished then ret False
       else bindE (screenshot env ''keepalive_done'') (\<lambda>_. ret True)))"

subsection \<open>send_notification (lines 324-355)\<close>

definition notification_message ::
  "env \<Rightarrow> bool \<Rightarrow> string \<Rightarrow> string \<Rightarrow> string list \<Rightarrow> string" where
  "notification_message env success error_msg time lgs =
     (let status = (if success then ''[ok] success'' else ''[x] failure'');
          message1 = ''<b>ClawCloud auto login</b>'' @ nl @ nl @
                     ''<b>Status:</b> '' @ status @ nl @
                     ''<b>User:</b> '' @ str_opt (env_username env) @ nl @
                     ''<b>Time:</b> '' @ time;
          message2 = (if error_msg \<noteq> [] then message1 @ nl @ ''<b>Error:</b> '' @ error_msg
                      else message1);
          recent = drop (length lgs - 8) lgs
      in if recent \<noteq> [] then message2 @ nl @ nl @ ''<b>Logs:</b>'' @ nl @ join nl recent
         else message2)"

fun send_photos :: "env \<Rightarrow> string list \<Rightarrow> unit prog" where
  "send_photos env [] = ret ()"
| "send_photos env (ss # rest) = bindE (send_photo env ss ss) (\<lambda>_. send_photos env rest)"

definition send_notification :: "env \<Rightarrow> bool \<Rightarrow> string \<Rightarrow> unit prog" where
  "send_notification env success error_msg s =
     (if \<not> tg_enabled env then (Inr (), s)
      else
        bindE (send_message env
                 (notification_message env success error_msg (now env (trace s)) (logs s))) (\<lambda>_.
          if screenshots s \<noteq> [] then
            (if \<not> success then send_photos env (screenshots s)
             else bindE (send_photo env (last (screenshots s)) ''final screenshot'') (\<lambda>_. ret ()))
          else ret ()) s)"

subsection \<open>run (lines 357-466)\<close>

definition github_selectors :: "string list" where
  \<open>github_selectors =
     [''button:has-text("GitHub")'', ''a:has-text("GitHub")'',
      ''button:has-text("Continue with GitHub")'', ''[data-provider="github"]'']\<close>

text \<open>Lines 447-455: keepalive, whose result is dropped, and the success notification.\<close>

definition run_step6 :: "env \<Rightarrow> unit prog" where
  "run_step6 env =
     bindE (log ''step 6: keepalive'' ''STEP'') (\<lambda>_.
     bindE (keepalive env) (\<lambda>_.
     send_notification env True []))"

text \<open>Lines 438-445, then step 6.\<close>

definition run_step5 :: "env \<Rightarrow> unit prog" where
  "run_step5 env =
     bindE (log ''step 5: verify the login'' ''STEP'') (\<lambda>_.
     bindE (verify_login env) (\<lambda>ok.
       if \<not> ok then
         bindE (screenshot env ''verify_failed'') (\<lambda>_.
         bindE (send_notification env False ''verification failed'') (\<lambda>_.
         sys_exit 1))
       else run_step6 env))"

text \<open>Lines 427-436, then step 5.\<close>

definition run_step4 :: "env \<Rightarrow> unit prog" where
  "run_step4 env =
     bindE (log ''step 4: wait for the redirect'' ''STEP'') (\<lambda>_.
     bindE (wait_redirect env 45) (\<lambda>ok.
       if \<not> ok then
         bindE (screenshot env ''redirect_failed'') (\<lambda>_.
         bindE (send_notification env False ''redirect failed'') (\<lambda>_.
         sys_exit 1))
       else
         bindE (screenshot env ''redirect_ok'') (\<lambda>_. run_step5 env)))"

text \<open>Lines 417-425, then step 4.\<close>

definition run_step3 :: "env \<Rightarrow> unit prog" where
  "run_step3 env =
     bindE (log ''step 3: GitHub login'' ''STEP'') (\<lambda>_.
     bindE (get_url env) (\<lambda>u.
       if is_in ''github.com/login'' u \<or> is_in ''github.com/session'' u then
         bindE (login_github env) (\<lambda>ok.
           if \<not> ok then
             bindE (screenshot env ''login_failed'') (\<lambda>_.
             bindE (send_notification env False ''GitHub login failed'') (\<lambda>_.
             sys_exit 1))
           else run_step4 env)
       else run_step4 env))"

text \<open>Lines 397-415, then step 3.\<close>

definition run_step2 :: "env \<Rightarrow> unit prog" where
  "run_step2 env =
     bindE (log ''step 2: click the GitHub login'' ''STEP'') (\<lambda>_.
     bindE (find_and_click env github_selectors ''GitHub button'') (\<lambda>found.
       if \<not> found then
         bindE (log ''GitHub button not found'' ''ERROR'') (\<lambda>_.
         bindE (screenshot env ''button_not_found'') (\<lambda>_.
         bindE (send_notification env False ''GitHub login button not found'') (\<lambda>_.
         sys_exit 1)))
       else
         bindE (sleep 3) (\<lambda>_.
         bindE (act env WaitLoad) (\<lambda>_.
         bindE (screenshot env ''after_click'') (\<lambda>_.
         run_step3 env)))))"

text \<open>
  Lines 381-395, then step 2: the body of the \<open>try\<close>. When the sign-in page is not
  shown and the login verifies, the function returns at line 395.
\<close>

definition run_body :: "env \<Rightarrow> unit prog" where
  "run_body env =
     bindE (log ''step 1: open ClawCloud'' ''STEP'') (\<lambda>_.
     bindE (act env (Goto SIGNIN_URL)) (\<lambda>_.
     bindE (act env WaitLoad) (\<lambda>_.
     bindE (sleep 2) (\<lambda>_.
     bindE (screenshot env ''clawcloud_home'') (\<lambda>_.
     bindE (get_url env) (\<lambda>u.
       if \<not> is_in ''signin'' (lower u) then
         bindE (log ''already logged in'' ''SUCCESS'') (\<lambda>_.
         bindE (verify_login env) (\<lambda>ok.
           if ok then
             bindE (keepalive env) (\<lambda>_.
             send_notification env True [])
           else run_step2 env))
       else run_step2 env))))))"

text \<open>Lines 457-463: the handler of \<open>except Exception as e\<close>.\<close>

definition run_handler :: "env \<Rightarrow> string \<Rightarrow> unit prog" where
  "run_handler env e =
     bindE (log (''exception: '' @ e) ''ERROR'') (\<lambda>_.
     bindE (screenshot env ''exception'') (\<lambda>_.
     bindE (send_notification env False e) (\<lambda>_.
     sys_exit 1)))"

definition run :: "env \<Rightarrow> unit prog" where
  "run env =
     bindE (validate_credentials env) (\<lambda>ok.
       if \<not> ok then
         bindE (send_notification env False ''credentials not configured'') (\<lambda>_.
         sys_exit 1)
       else
         bindE (act env Launch) (\<lambda>_.
         bindE (act env NewContext) (\<lambda>_.
         bindE (act env NewPage) (\<lambda>_.
         try_finally (try_except (run_body env) (run_handler env)) (act env BrowserClose)))))"

section \<open>Notions used in the statements, and environments to run the script in\<close>

text \<open>The calls that go to the notification service.\<close>

fun is_telegram :: "call \<Rightarrow> bool" where
  "is_telegram (SendMessage m) = True"
| "is_telegram (SendPhoto p c) = True"
| "is_telegram _ = False"

text \<open>
  An environment without the account name: notifications are configured, every request is
  answered with status 200, and the browser, were it started, would show an empty page.
\<close>

definition offline_env :: env where
  "offline_env = \<lparr>env_username = None, env_password = Some ''secret'',
     env_bot_token = Some ''token'', env_chat_id = Some ''42'',
     now = (\<lambda>h. ''2024-01-01 00:00:00''), page_url = (\<lambda>h. ''about:blank''),
     page_title = (\<lambda>h. Inr []), page_content = (\<lambda>h. Inr []),
     visible = (\<lambda>h sel. Inr False), element_text = (\<lambda>h sel. Inr []),
     context_cookies = (\<lambda>h. Inr []), fails = (\<lambda>h c. None),
     post = (\<lambda>h c. Inr 200), path_exists = (\<lambda>h p. True)\<rparr>"

section \<open>Facts about the control flow and the notification\<close>

lemma bindE_ret [simp]: "bindE (ret x) f = f x"
  by (rule ext) (simp add: bindE_def ret_def)

lemma bindE_raise [simp]: "bindE (raise e) f = raise e"
  by (rule ext) (simp add: bindE_def raise_def)

lemma bindE_Inr: "m s = (Inr x, s') \<Longrightarrow> bindE m f s = f x s'"
  by (simp add: bindE_def)

lemma bindE_Inl: "m s = (Inl e, s') \<Longrightarrow> bindE m f s = (Inl e, s')"
  by (simp add: bindE_def)

lemma bindE_log [simp]: "bindE (log m l) f s = f () (s\<lparr>logs := logs s @ [log_line m l]\<rparr>)"
  by (simp add: bindE_def log_def)

lemma bindE_sleep [simp]: "bindE (sleep n) f s = f () (s\<lparr>trace := trace s @ [Sleep n]\<rparr>)"
  by (simp add: bindE_def sleep_def)

lemma bindE_get_url [simp]: "bindE (get_url env) f s = f (page_url env (trace s)) s"
  by (simp add: bindE_def get_url_def)

text \<open>The senders never raise, and they add nothing but requests to the service.\<close>

lemma send_photo_effect:
  "\<exists>b cs. send_photo env p c s = (Inr b, s\<lparr>trace := trace s @ cs\<rparr>) \<and> list_all is_telegram cs"
  by (cases "\<not> tg_enabled env \<or> \<not> path_exists env (trace s) p")
     (auto simp: send_photo_def intro: exI [of _ "[]"])

lemma send_photos_effect:
  "\<exists>cs. send_photos env ps s = (Inr (), s\<lparr>trace := trace s @ cs\<rparr>) \<and> list_all is_telegram cs"
proof (induction ps arbitrary: s)
  case Nil
  show ?case by (auto simp: ret_def intro: exI [of _ "[]"])
next
  case (Cons p ps)
  obtain b cs where 1: "send_photo env p p s = (Inr b, s\<lparr>trace := trace s @ cs\<rparr>)"
    and 2: "list_all is_telegram cs"
    using send_photo_effect by blast
  obtain ds where 3: "send_photos env ps (s\<lparr>trace := trace s @ cs\<rparr>)
      = (Inr (), s\<lparr>trace := trace s @ cs @ ds\<rparr>)" and 4: "list_all is_telegram ds"
    using Cons.IH [of "s\<lparr>trace := trace s @ cs\<rparr>"] by auto
  show ?case
    using 1 2 3 4 by (auto simp: bindE_def intro!: exI [of _ "cs @ ds"])
qed

lemma send_notification_effect:
  "\<exists>cs. send_notification env b e s = (Inr (), s\<lparr>trace := trace s @ cs\<rparr>)
        \<and> list_all is_telegram cs"
proof (cases "tg_enabled env")
  case False
  then show ?thesis by (auto simp: send_notification_def intro: exI [of _ "[]"])
next
  case True
  let ?m = "notification_message env b e (now env (trace s)) (logs s)"
  let ?s1 = "s\<lparr>trace := trace s @ [SendMessage ?m]\<rparr>"
  have sm: "\<exists>r. send_message env ?m s = (Inr r, ?s1)"
    using True by (simp add: send_message_def)
  show ?thesis
  proof (cases "screenshots s = []")
    case True
    with sm \<open>tg_enabled env\<close> show ?thesis
      by (auto simp: send_notification_def bindE_def ret_def intro!: exI [of _ "[SendMessage ?m]"])
  next
    case False
    show ?thesis
    proof (cases b)
      case True
      obtain r cs where "send_photo env (last (screenshots s)) ''final screenshot'' ?s1
          = (Inr r, ?s1\<lparr>trace := trace ?s1 @ cs\<rparr>)" and "list_all is_telegram cs"
        using send_photo_effect by blast
      with sm True False \<open>tg_enabled env\<close> show ?thesis
        by (auto simp: send_notification_def bindE_def ret_def
            intro!: exI [of _ "SendMessage ?m # cs"])
    next
      case b: False
      obtain cs where "send_photos env (screenshots s) ?s1
          = (Inr (), ?s1\<lparr>trace := trace ?s1 @ cs\<rparr>)" and "list_all is_telegram cs"
        using send_photos_effect by blast
      with sm b False \<open>tg_enabled env\<close> show ?thesis
        by (auto simp: send_notification_def bindE_def ret_def
            intro!: exI [of _ "SendMessage ?m # cs"])
    qed
  qed
qed

section \<open>Missing credentials (C6)\<close>

lemma validate_credentials_missing:
  assumes "env_username env = None \<or> env_password env = None"
  shows "\<exists>l. validate_credentials env s = (Inr False, s\<lparr>logs := logs s @ [l]\<rparr>)"
  using assms by (auto simp: validate_credentials_def truthy_def ret_def)

text \<open>
  C6. When the account name or the account secret is absent from the environment,
  \<open>validate_credentials\<close> returns \<open>False\<close>; \<open>run\<close> then does nothing but call
  \<open>send_notification\<close> for a failure and \<open>sys.exit(1)\<close>: the process ends with status 1,
  and every external call it made is a request to the notification service, so the browser
  was never launched and no context or page was opened.
\<close>

theorem missing_credentials_abort:
  assumes "env_username env = None \<or> env_password env = None"
  shows "fst (validate_credentials env s) = Inr False
       \<and> run env s = bindE (send_notification env False ''credentials not configured'')
                        (\<lambda>_. sys_exit 1) (snd (validate_credentials env s))
       \<and> fst (run env s) = Inl (SystemExit 1)
       \<and> exit_code (fst (run env s)) = 1
       \<and> (\<exists>cs. trace (snd (run env s)) = trace s @ cs \<and> list_all is_telegram cs
              \<and> Launch \<notin> set cs \<and> NewContext \<notin> set cs \<and> NewPage \<notin> set cs)"
proof -
  obtain l where v: "validate_credentials env s = (Inr False, s\<lparr>logs := logs s @ [l]\<rparr>)"
    using validate_credentials_missing [OF assms] by blast
  let ?s1 = "s\<lparr>logs := logs s @ [l]\<rparr>"
  obtain cs where n: "send_notification env False ''credentials not configured'' ?s1
      = (Inr (), ?s1\<lparr>trace := trace ?s1 @ cs\<rparr>)" and tg: "list_all is_telegram cs"
    using send_notification_effect by blast
  have r: "run env s = bindE (send_notification env False ''credentials not configured'')
                        (\<lambda>_. sys_exit 1) ?s1"
    using v by (simp add: run_def bindE_def)
  have r2: "run env s = (Inl (SystemExit 1), ?s1\<lparr>trace := trace ?s1 @ cs\<rparr>)"
    using n by (simp add: r bindE_def sys_exit_def raise_def)
  have nb: "Launch \<notin> set cs \<and> NewContext \<notin> set cs \<and> NewPage \<notin> set cs"
    using tg by (auto simp: list_all_iff)
  have c1: "fst (validate_credentials env s) = Inr False"
    using v by simp
  have c2: "run env s = bindE (send_notification env False ''credentials not configured'')
                        (\<lambda>_. sys_exit 1) (snd (validate_credentials env s))"
    by (simp only: v snd_conv r)
  have c3: "fst (run env s) = Inl (SystemExit 1)"
    by (simp only: r2 fst_conv)
  have c4: "exit_code (fst (run env s)) = 1"
    by (simp only: c3 exit_code.simps)
  have c5: "\<exists>cs. trace (snd (run env s)) = trace s @ cs \<and> list_all is_telegram cs
              \<and> Launch \<notin> set cs \<and> NewContext \<notin> set cs \<and> NewPage \<notin> set cs"
    using tg nb by (intro exI [of _ cs]) (simp add: r2)
  from c1 c2 c3 c4 c5 show ?thesis by blast
qed

theorem missing_credentials_abort_witness:
  "(env_username offline_env = None \<or> env_password offline_env = None)
   \<and> fst (run offline_env init_state) = Inl (SystemExit 1)
   \<and> (\<exists>m. trace (snd (run offline_env init_state)) = [SendMessage m])"
proof -
  have h: "env_username offline_env = None \<or> env_password offline_env = None"
    by (simp add: offline_env_def)
  have "tg_enabled offline_env"
    by (simp add: tg_enabled_def truthy_def offline_env_def)
  then have "\<exists>m. trace (snd (bindE (send_notification offline_env False
        ''credentials not configured'') (\<lambda>_. sys_exit 1)
        (snd (validate_credentials offline_env init_state)))) = [SendMessage m]"
    by (simp add: send_notification_def send_message_def bindE_def ret_def sys_exit_def raise_def
        validate_credentials_def truthy_def offline_env_def init_state_def log_def)
  then have "\<exists>m. trace (snd (run offline_env init_state)) = [SendMessage m]"
    using missing_credentials_abort [OF h, of init_state] by simp
  with h missing_credentials_abort [OF h, of init_state] show ?thesis by blast
qed

end
